theory Spec2Isabelle
  imports Complex_Main
begin

section \<open>Numbers, errors and library functions\<close>

text \<open>
  The program is \<^verbatim>\<open>pages/core/vibrations.py\<close> of waveplot. Its numbers are Python and
  numpy floats; they are modelled here by the real numbers, so every theorem below is a
  statement of exact arithmetic: rounding error, overflow and underflow of the 64-bit
  floats are outside the model. What exact arithmetic cannot hold at all is kept as an
  error value:
  \<^item> a Python exception is \<open>Inl\<close> of the exception (\<open>KeyError\<close>, \<open>IndexError\<close>,
    \<open>ZeroDivisionError\<close>, \<open>ValueError\<close>, \<open>TypeError\<close>);
  \<^item> numpy does not raise on the square root of a negative number or on a division by
    zero, it yields \<open>nan\<close> or \<open>inf\<close>, which then spreads through all later arithmetic.
    The reals have no such value, so the model stops there with \<open>Inl NonFinite\<close>.
\<close>

datatype error =
    KeyError string
  | IndexError
  | ZeroDivisionError
  | ValueError
  | TypeError
  | NonFinite

definition try_bind :: "error + 'a \<Rightarrow> ('a \<Rightarrow> error + 'b) \<Rightarrow> error + 'b" where
  "try_bind r f = (case r of Inl e \<Rightarrow> Inl e | Inr v \<Rightarrow> f v)"

text \<open>Division of two Python numbers raises on a zero divisor.\<close>

definition py_div :: "real \<Rightarrow> real \<Rightarrow> error + real" where
  "py_div a b = (if b = 0 then Inl ZeroDivisionError else Inr (a / b))"

text \<open>Division with a numpy float on the left gives \<open>inf\<close> or \<open>nan\<close> on a zero divisor.\<close>

definition np_div :: "real \<Rightarrow> real \<Rightarrow> error + real" where
  "np_div a b = (if b = 0 then Inl NonFinite else Inr (a / b))"

text \<open>\<^verbatim>\<open>np.sqrt\<close>: \<open>nan\<close> below zero.\<close>

definition np_sqrt :: "real \<Rightarrow> error + real" where
  "np_sqrt a = (if a < 0 then Inl NonFinite else Inr (sqrt a))"

text \<open>
  \<^verbatim>\<open>np.linspace(start, stop, num)\<close>: \<open>num\<close> evenly spaced samples, both ends included.
\<close>

definition linspace :: "real \<Rightarrow> real \<Rightarrow> nat \<Rightarrow> real list" where
  "linspace start stop num =
     (if num = 1 then [start]
      else map (\<lambda>i. start + real i * ((stop - start) / real (num - 1))) [0..<num])"

text \<open>
  The constants of \<^verbatim>\<open>scipy.constants\<close> the module reads: the speed of light in m/s, the
  Planck constant \<open>h\<close> in J s (\<^verbatim>\<open>con.Planck\<close>), and, for comparison only, the reduced
  Planck constant \<^verbatim>\<open>con.hbar\<close>, which the module never reads.
\<close>

definition speed_of_light :: real where
  "speed_of_light = 299792458"

definition Planck :: real where
  "Planck = 6.62607015 / 10 ^ 34"

definition hbar :: real where
  "hbar = Planck / (2 * pi)"

text \<open>
  \<^verbatim>\<open>
  # c in cm s-1
  LIGHT = con.speed_of_light * 100
  HBAR = con.Planck
  \<close>
\<close>

definition LIGHT :: real where
  "LIGHT = speed_of_light * 100"

definition HBAR :: real where
  "HBAR = Planck"

text \<open>The literal \<^verbatim>\<open>1.6605E-27\<close> (kg per atomic mass unit) of the module.\<close>

definition amu :: real where
  "amu = 1.6605 / 10 ^ 27"

section \<open>Hermite polynomials\<close>

text \<open>
  \<^verbatim>\<open>
  def hermite(n: int, x: ArrayLike) -> NDArray:
      if n == 0:
          return x * 0 + 1
      elif n == 1:
          return 2 * x
      else:
          return 2 * x * hermite(n - 1, x) - 2 * (n-1) * hermite(n - 2, x)
  \<close>
  An array is a list of reals, and numpy's arithmetic on arrays is elementwise. The
  order \<open>n\<close> is a natural number: every caller takes it from \<^verbatim>\<open>range(max_n + 1)\<close>, and on
  a negative order the source never reaches a base case.
\<close>

definition arr_scale :: "real \<Rightarrow> real list \<Rightarrow> real list" where
  "arr_scale c xs = map (\<lambda>v. c * v) xs"

definition arr_mul :: "real list \<Rightarrow> real list \<Rightarrow> real list" where
  "arr_mul xs ys = map2 (\<lambda>a b. a * b) xs ys"

definition arr_sub :: "real list \<Rightarrow> real list \<Rightarrow> real list" where
  "arr_sub xs ys = map2 (\<lambda>a b. a - b) xs ys"

fun hermite :: "nat \<Rightarrow> real list \<Rightarrow> real list" where
  "hermite 0 x = map (\<lambda>v. v * 0 + 1) x"
| "hermite (Suc 0) x = arr_scale 2 x"
| "hermite (Suc (Suc n)) x =
     arr_sub (arr_mul (arr_scale 2 x) (hermite (Suc n) x))
             (arr_scale (2 * real (Suc n)) (hermite n x))"

section \<open>Energies of the harmonic oscillator\<close>

text \<open>
  \<^verbatim>\<open>
  def calc_harmonic_energies(k, m, max_n):
      omega = np.sqrt(k / m) / (2*np.pi)  # rad s^-1
      state_E = np.array([HBAR * omega * (n + 0.5) for n in range(0, max_n + 1)])
      max_x = np.sqrt((max_n + 0.5) * 2 * HBAR * omega / k)
      displacement = np.linspace(-max_x*1.2, max_x*1.2, 100)  # m
      harmonic_E = 0.5 * k * displacement**2  # J
      zpd = np.sqrt(HBAR * omega / k)  # m
      return state_E, harmonic_E, displacement, zpd
  \<close>
  \<open>k\<close> and \<open>m\<close> are Python numbers, so \<open>k / m\<close> raises on \<open>m = 0\<close>; from \<open>omega\<close> on the
  values are numpy floats.
\<close>

definition calc_harmonic_energies ::
  "real \<Rightarrow> real \<Rightarrow> int \<Rightarrow> error + (real list \<times> real list \<times> real list \<times> real)" where
  "calc_harmonic_energies k m max_n =
     try_bind (py_div k m) (\<lambda>q.
     try_bind (np_sqrt q) (\<lambda>r.
       let omega = r / (2 * pi);
           state_E = map (\<lambda>n. HBAR * omega * (of_int n + 0.5)) [0..max_n]
       in
     try_bind (np_div ((of_int max_n + 0.5) * 2 * HBAR * omega) k) (\<lambda>a.
     try_bind (np_sqrt a) (\<lambda>max_x.
       let displacement = linspace (- max_x * 1.2) (max_x * 1.2) 100;
           harmonic_E = map (\<lambda>d. 0.5 * k * d ^ 2) displacement
       in
     try_bind (np_div (HBAR * omega) k) (\<lambda>b.
     try_bind (np_sqrt b) (\<lambda>zpd.
       Inr (state_E, harmonic_E, displacement, zpd)))))))"

section \<open>Reduced mass and force constant\<close>

text \<open>
  \<^verbatim>\<open>
  def calculate_mu(w, k):
      mu = k / w**2
      # Convert mass to kg
      mu /= 1.6605E-27
      return mu

  def calculate_k(w, mu):
      # Convert mass to kg
      mu *= 1.6605E-27
      k = mu * w**2
      return k
  \<close>
\<close>

definition calculate_mu :: "real \<Rightarrow> real \<Rightarrow> error + real" where
  "calculate_mu w k = try_bind (py_div k (w ^ 2)) (\<lambda>mu. Inr (mu / amu))"

definition calculate_k :: "real \<Rightarrow> real \<Rightarrow> real" where
  "calculate_k w mu = (mu * amu) * w ^ 2"

section \<open>Wavefunctions\<close>

text \<open>
  \<^verbatim>\<open>
  def harmonic_wf(n, x, m, omega):
      x = np.asarray(x)
      beta = np.sqrt(m*omega / HBAR)
      h = hermite(n, beta * x)
      N = 1. / np.sqrt(2**n * factorial(n)) * ((m * omega)/(np.pi * HBAR))**0.25
      wf = h * N * np.exp(-beta**2 * x**2 * 0.5)
      print(n, h)
      return wf
  \<close>
  The \<^verbatim>\<open>print\<close> writes to the server's standard output only and is left out.
\<close>

definition harmonic_wf :: "nat \<Rightarrow> real list \<Rightarrow> real \<Rightarrow> real \<Rightarrow> error + real list" where
  "harmonic_wf n x m omega =
     try_bind (np_sqrt (m * omega / HBAR)) (\<lambda>beta.
       let h = hermite n (arr_scale beta x);
           N = 1 / sqrt (2 ^ n * fact n) * ((m * omega) / (pi * HBAR)) powr 0.25;
           wf = map2 (\<lambda>hv xv. hv * N * exp (- (beta ^ 2) * xv ^ 2 * 0.5)) h x
       in Inr wf)"

section \<open>The parameter resolver\<close>

text \<open>
  Python's \<^verbatim>\<open>round(v, ndigits)\<close>: to the nearest multiple of \<open>10\<^sup>-\<^sup>n\<close>, a tie to the even
  one.
\<close>

definition round_half_even :: "real \<Rightarrow> int" where
  "round_half_even v =
     (let f = \<lfloor>v\<rfloor>; d = v - of_int f
      in if d < 1 / 2 then f
         else if 1 / 2 < d then f + 1
         else if even f then f else f + 1)"

definition py_round :: "real \<Rightarrow> nat \<Rightarrow> real" where
  "py_round v ndigits = of_int (round_half_even (v * 10 ^ ndigits)) / 10 ^ ndigits"

text \<open>\<^verbatim>\<open>sum\<close> of a list of booleans counts the true ones.\<close>

definition py_sum :: "bool list \<Rightarrow> nat" where
  "py_sum bs = length (filter (\<lambda>b. b) bs)"

text \<open>
  The nine outputs of \<^verbatim>\<open>update_inputs\<close>, in the order of the returned tuple: the
  dictionary for the variable store, the four displayed values and the four
  \<^verbatim>\<open>disabled\<close> flags. A value of the dictionary is a float or \<^verbatim>\<open>None\<close>.
\<close>

type_synonym vars = "string \<rightharpoonup> real option"

record inputs_update =
  var_store :: vars
  lin_wn_value :: real
  ang_wn_value :: real
  fc_value :: real
  rm_value :: real
  lin_wn_disabled :: bool
  ang_wn_disabled :: bool
  fc_disabled :: bool
  rm_disabled :: bool

text \<open>
  \<^verbatim>\<open>
  def update_inputs(lin_wn, ang_wn, fc, mu, lin_wn_fix, ang_wn_fix, fc_fix, mu_fix):
      lin_wn_disable = True
      ang_wn_disable = True
      fc_disable = True
      mu_disable = True
      if lin_wn_fix:
          lin_wn_disable = False
      if ang_wn_fix:
          ang_wn_disable = False
      if fc_fix:
          fc_disable = False
      if mu_fix:
          mu_disable = False

      if sum([ang_wn_fix, lin_wn_fix, fc_fix, mu_fix]) != 2 or ang_wn_fix and lin_wn_fix:
          rounded = [round(lin_wn, 2), round(ang_wn, 2), round(fc, 2), round(mu, 4)]
          on_off = [lin_wn_disable, ang_wn_disable, fc_disable, mu_disable]
          return {'fc': None, 'mu': None}, *rounded, *on_off

      if ang_wn_fix and not lin_wn_fix:
          omega = ang_wn * LIGHT
          lin_wn = ang_wn / (2 * np.pi)
          if fc_fix and not mu_fix:
              mu = calculate_mu(omega, fc)
          elif not fc_fix and mu_fix:
              fc = calculate_k(omega, mu)
      elif lin_wn_fix and not ang_wn_fix:
          omega = lin_wn * 2 * np.pi * LIGHT
          ang_wn = lin_wn * 2 * np.pi
          if fc_fix and not mu_fix:
              mu = calculate_mu(omega, fc)
          elif not fc_fix and mu_fix:
              fc = calculate_k(omega, mu)
      elif not ang_wn_fix and not lin_wn_fix:
          ang_wn = np.sqrt(fc / (mu * 1.6605E-27)) / LIGHT
          lin_wn = ang_wn / (2 * np.pi)

      rounded = [round(lin_wn, 2), round(ang_wn, 2), round(fc, 2), round(mu, 4)]
      on_off = [lin_wn_disable, ang_wn_disable, fc_disable, mu_disable]
      return {'fc': fc, 'mu': mu * 1.6605E-27, 'ang_wn': ang_wn, 'lin_wn': lin_wn}, \
          *rounded, *on_off
  \<close>
  The four values are floats, as the signature says. The branches that assign to
  \<open>lin_wn\<close>, \<open>ang_wn\<close>, \<open>fc\<close> and \<open>mu\<close> yield the four values after the assignments.
\<close>

definition update_inputs ::
  "real \<Rightarrow> real \<Rightarrow> real \<Rightarrow> real \<Rightarrow> bool \<Rightarrow> bool \<Rightarrow> bool \<Rightarrow> bool \<Rightarrow> error + inputs_update" where
  "update_inputs lin_wn ang_wn fc mu lin_wn_fix ang_wn_fix fc_fix mu_fix =
     (let lin_wn_disable = (if lin_wn_fix then False else True);
          ang_wn_disable = (if ang_wn_fix then False else True);
          fc_disable = (if fc_fix then False else True);
          mu_disable = (if mu_fix then False else True)
      in
      if py_sum [ang_wn_fix, lin_wn_fix, fc_fix, mu_fix] \<noteq> 2 \<or> (ang_wn_fix \<and> lin_wn_fix) then
        Inr \<lparr>var_store = [''fc'' \<mapsto> None, ''mu'' \<mapsto> None],
             lin_wn_value = py_round lin_wn 2, ang_wn_value = py_round ang_wn 2,
             fc_value = py_round fc 2, rm_value = py_round mu 4,
             lin_wn_disabled = lin_wn_disable, ang_wn_disabled = ang_wn_disable,
             fc_disabled = fc_disable, rm_disabled = mu_disable\<rparr>
      else
        try_bind
          (if ang_wn_fix \<and> \<not> lin_wn_fix then
             (let omega = ang_wn * LIGHT;
                  lin_wn' = ang_wn / (2 * pi)
              in if fc_fix \<and> \<not> mu_fix then
                   try_bind (calculate_mu omega fc) (\<lambda>mu'. Inr (lin_wn', ang_wn, fc, mu'))
                 else if \<not> fc_fix \<and> mu_fix then
                   Inr (lin_wn', ang_wn, calculate_k omega mu, mu)
                 else Inr (lin_wn', ang_wn, fc, mu))
           else if lin_wn_fix \<and> \<not> ang_wn_fix then
             (let omega = lin_wn * 2 * pi * LIGHT;
                  ang_wn' = lin_wn * 2 * pi
              in if fc_fix \<and> \<not> mu_fix then
                   try_bind (calculate_mu omega fc) (\<lambda>mu'. Inr (lin_wn, ang_wn', fc, mu'))
                 else if \<not> fc_fix \<and> mu_fix then
                   Inr (lin_wn, ang_wn', calculate_k omega mu, mu)
                 else Inr (lin_wn, ang_wn', fc, mu))
           else if \<not> ang_wn_fix \<and> \<not> lin_wn_fix then
             try_bind (py_div fc (mu * amu)) (\<lambda>q.
             try_bind (np_sqrt q) (\<lambda>r.
               let ang_wn' = r / LIGHT;
                   lin_wn' = ang_wn' / (2 * pi)
               in Inr (lin_wn', ang_wn', fc, mu)))
           else Inr (lin_wn, ang_wn, fc, mu))
          (\<lambda>(lin_wn, ang_wn, fc, mu).
             Inr \<lparr>var_store = [''fc'' \<mapsto> Some fc, ''mu'' \<mapsto> Some (mu * amu),
                               ''ang_wn'' \<mapsto> Some ang_wn, ''lin_wn'' \<mapsto> Some lin_wn],
                  lin_wn_value = py_round lin_wn 2, ang_wn_value = py_round ang_wn 2,
                  fc_value = py_round fc 2, rm_value = py_round mu 4,
                  lin_wn_disabled = lin_wn_disable, ang_wn_disabled = ang_wn_disable,
                  fc_disabled = fc_disable, rm_disabled = mu_disable\<rparr>))"

section \<open>The dataset\<close>

text \<open>
  A callback returns a value for its output or Dash's \<^verbatim>\<open>no_update\<close>, which leaves the
  output as it is.
\<close>

datatype 'a callback_result = NoUpdate | Update 'a

text \<open>
  The dictionary of the plot store: the keys \<^verbatim>\<open>'x'\<close>, \<^verbatim>\<open>'wf'\<close>, \<^verbatim>\<open>'states'\<close> and
  \<^verbatim>\<open>'potential'\<close>, each present (\<open>Some\<close>) or absent (\<open>None\<close>). The empty dictionary has
  all four absent.
\<close>

record dataset =
  data_x :: "real list option"
  data_wf :: "real list list option"
  data_states :: "real list option"
  data_potential :: "real list option"

definition empty_dataset :: dataset where
  "empty_dataset = \<lparr>data_x = None, data_wf = None, data_states = None, data_potential = None\<rparr>"

definition dict_len :: "dataset \<Rightarrow> nat" where
  "dict_len d =
     (if data_x d = None then 0 else 1) + (if data_wf d = None then 0 else 1) +
     (if data_states d = None then 0 else 1) + (if data_potential d = None then 0 else 1)"

text \<open>\<^verbatim>\<open>d[key]\<close> on a string-keyed dictionary: \<^verbatim>\<open>KeyError\<close> on an absent key.\<close>

definition getitem :: "string \<Rightarrow> 'a option \<Rightarrow> error + 'a" where
  "getitem key entry = (case entry of None \<Rightarrow> Inl (KeyError key) | Some v \<Rightarrow> Inr v)"

text \<open>
  \<^verbatim>\<open>vars[key]\<close> read as a number: a stored \<^verbatim>\<open>None\<close> fails in the arithmetic that
  follows.
\<close>

definition getnum :: "vars \<Rightarrow> string \<Rightarrow> error + real" where
  "getnum vs key =
     try_bind (getitem key (vs key)) (\<lambda>v. case v of None \<Rightarrow> Inl TypeError | Some r \<Rightarrow> Inr r)"

text \<open>A list comprehension whose body may raise: the first exception ends it.\<close>

fun map_try :: "('a \<Rightarrow> error + 'b) \<Rightarrow> 'a list \<Rightarrow> error + 'b list" where
  "map_try f [] = Inr []"
| "map_try f (a # as) = try_bind (f a) (\<lambda>b. try_bind (map_try f as) (\<lambda>bs. Inr (b # bs)))"

text \<open>
  \<^verbatim>\<open>
  def calc_data(vars, max_n):
      if None in vars.values():
          return no_update
      if max_n is None:
          max_n = 5
      state_e, harmonic_e, displacement, _ = calc_harmonic_energies(
          vars['fc'], vars['mu'], max_n)
      # 1 cm-1 = 1.986 30 x 10-23 J
      state_e /= 1.98630E-23
      harmonic_e /= 1.98630E-23
      wf = [
          harmonic_wf(n, displacement, vars['mu'], vars['ang_wn'] * LIGHT)
          for n in range(max_n + 1)
      ]
      final = {
          'x': (displacement * 10E10).tolist(),
          'wf': wf,
          'states': state_e.tolist(),
          'potential': harmonic_e.tolist()
      }
      return final
  \<close>
\<close>

definition calc_data :: "vars \<Rightarrow> int option \<Rightarrow> error + dataset callback_result" where
  "calc_data vs max_n_in =
     (if None \<in> ran vs then Inr NoUpdate
      else
        let max_n = (case max_n_in of None \<Rightarrow> 5 | Some n \<Rightarrow> n) in
        try_bind (getnum vs ''fc'') (\<lambda>fc.
        try_bind (getnum vs ''mu'') (\<lambda>mu.
        try_bind (calc_harmonic_energies fc mu max_n) (\<lambda>(state_e0, harmonic_e0, displacement, _).
          let state_e = map (\<lambda>e. e / (1.98630 / 10 ^ 23)) state_e0;
              harmonic_e = map (\<lambda>e. e / (1.98630 / 10 ^ 23)) harmonic_e0
          in
        try_bind
          (map_try
             (\<lambda>n. try_bind (getnum vs ''mu'') (\<lambda>m.
                  try_bind (getnum vs ''ang_wn'') (\<lambda>a.
                    harmonic_wf n displacement m (a * LIGHT))))
             [0..<nat (max_n + 1)])
          (\<lambda>wf.
             Inr (Update \<lparr>data_x = Some (map (\<lambda>d. d * (10 * 10 ^ 10)) displacement),
                          data_wf = Some wf,
                          data_states = Some state_e,
                          data_potential = Some harmonic_e\<rparr>))))))"

section \<open>The plot\<close>

text \<open>Python's \<^verbatim>\<open>min\<close> and \<^verbatim>\<open>max\<close> of a list raise \<^verbatim>\<open>ValueError\<close> on the empty list.\<close>

definition py_min :: "real list \<Rightarrow> error + real" where
  "py_min xs = (case xs of [] \<Rightarrow> Inl ValueError | v # vs \<Rightarrow> Inr (fold min vs v))"

definition py_max :: "real list \<Rightarrow> error + real" where
  "py_max xs = (case xs of [] \<Rightarrow> Inl ValueError | v # vs \<Rightarrow> Inr (fold max vs v))"

text \<open>
  \<^verbatim>\<open>xs[i]\<close>: an index below zero counts from the end, and an index outside the list
  raises \<^verbatim>\<open>IndexError\<close>.
\<close>

definition py_index :: "'a list \<Rightarrow> int \<Rightarrow> error + 'a" where
  "py_index xs i =
     (let j = (if i < 0 then i + int (length xs) else i)
      in if j < 0 \<or> int (length xs) \<le> j then Inl IndexError else Inr (xs ! nat j))"

text \<open>
  A \<^verbatim>\<open>go.Scatter\<close> trace, with the attributes the module sets, and the patch of the
  figure that \<^verbatim>\<open>update_plot\<close> returns.
\<close>

record scatter =
  scatter_x :: "real list"
  scatter_y :: "real list"
  line_color :: "string option"
  mode :: "string option"

record figure_patch =
  yaxis_range :: "real list"
  traces :: "scatter list"

text \<open>
  \<^verbatim>\<open>
  def update_plot(data):
      toggle_pe, toggle_wf, toggle_states = True, True, True
      fig = Patch()
      traces = []
      if toggle_pe:
          traces.append(go.Scatter(x=data['x'], y=data['potential']))
      _states = [[da, da] for da in data['states']]
      if toggle_states:
          _x = [min(data['x']), max(data['x'])]
          for state in _states:
              traces.append(
                  go.Scatter(x=_x, y=state, line={'color': 'black'}, mode='lines'))
      if toggle_wf:
          for n, (wf, state) in enumerate(zip(data['wf'], _states)):
              traces.append(
                  go.Scatter(x=data['x'], y=[val * 0.01 + state[0] for val in wf]))
      # Find nmax + 1 th state and use this energy as y limit
      upen = 2*data['states'][-1] - data['states'][-2]
      lowen = data['states'][0] - (data['states'][-1] - data['states'][-2]) / 2
      fig['layout']['yaxis']['range'] = [lowen, upen]
      fig['data'] = traces
      return fig
  \<close>
\<close>

definition update_plot :: "dataset \<Rightarrow> error + figure_patch" where
  "update_plot d =
     try_bind (getitem ''x'' (data_x d)) (\<lambda>x.
     try_bind (getitem ''potential'' (data_potential d)) (\<lambda>potential.
       let traces_pe = [\<lparr>scatter_x = x, scatter_y = potential, line_color = None, mode = None\<rparr>] in
     try_bind (getitem ''states'' (data_states d)) (\<lambda>states.
       let states2 = map (\<lambda>da. [da, da]) states in
     try_bind (py_min x) (\<lambda>lo.
     try_bind (py_max x) (\<lambda>hi.
       let x2 = [lo, hi];
           traces_states =
             map (\<lambda>state. \<lparr>scatter_x = x2, scatter_y = state,
                             line_color = Some ''black'', mode = Some ''lines''\<rparr>) states2
       in
     try_bind (getitem ''wf'' (data_wf d)) (\<lambda>wfs.
       let traces_wf =
             map (\<lambda>(wf, state).
                    \<lparr>scatter_x = x, scatter_y = map (\<lambda>val. val * 0.01 + state ! 0) wf,
                     line_color = None, mode = None\<rparr>) (zip wfs states2)
       in
     try_bind (py_index states (- 1)) (\<lambda>s_last.
     try_bind (py_index states (- 2)) (\<lambda>s_prev.
       let upen = 2 * s_last - s_prev in
     try_bind (py_index states 0) (\<lambda>s_first.
       let lowen = s_first - (s_last - s_prev) / 2 in
       Inr \<lparr>yaxis_range = [lowen, upen],
            traces = traces_pe @ traces_states @ traces_wf\<rparr>)))))))))"

section \<open>The export\<close>

text \<open>
  \<^verbatim>\<open>'{:.6f}'.format(v)\<close> and \<^verbatim>\<open>'{:.8f}'.format(v)\<close>: the sign, the integer part in decimal,
  a point, and the given number of decimals, the value rounded to them (a tie to even).
\<close>

fun decimal :: "nat \<Rightarrow> string" where
  "decimal n =
     (if n < 10 then [''0123456789'' ! n]
      else decimal (n div 10) @ [''0123456789'' ! (n mod 10)])"

declare decimal.simps [simp del]

definition format_f :: "nat \<Rightarrow> real \<Rightarrow> string" where
  "format_f p v =
     (let r = nat (round_half_even (\<bar>v\<bar> * 10 ^ p));
          ds = decimal (r mod 10 ^ p)
      in (if v < 0 then [CHR ''-''] else []) @ decimal (r div 10 ^ p) @ [CHR ''.''] @
         replicate (p - length ds) (CHR ''0'') @ ds)"

definition nl :: string where
  "nl = [CHR 0x0A]"

record download =
  content :: string
  filename :: string

text \<open>
  The numbers the two table loops pass to \<^verbatim>\<open>format\<close>, row by row:
  \<^verbatim>\<open>(di * 10E10, se)\<close> for \<^verbatim>\<open>di, se in zip(data['x'], data['potential'])\<close> and
  \<^verbatim>\<open>di * 10E10\<close> followed by the entries of \<^verbatim>\<open>row\<close> for
  \<^verbatim>\<open>di, row in zip(data['x'], data['wf'])\<close>.
\<close>

definition potential_table :: "real list \<Rightarrow> real list \<Rightarrow> (real \<times> real) list" where
  "potential_table x potential = map (\<lambda>(di, se). (di * (10 * 10 ^ 10), se)) (zip x potential)"

definition wavefunction_table :: "real list \<Rightarrow> real list list \<Rightarrow> (real \<times> real list) list" where
  "wavefunction_table x wfs = map (\<lambda>(di, row). (di * (10 * 10 ^ 10), row)) (zip x wfs)"

text \<open>
  \<^verbatim>\<open>
  def download_data(_nc, data):
      if not len(data):
          return no_update
      oc = io.StringIO()
      header = (
          'Vibrational wavefunction data calculated using waveplot.com\n'
          'A tool by Jon Kragskow\n'
      )
      oc.write(header)
      oc.write('\nState energies (cm-1)\n')
      for se in data['states']:
          oc.write('{:.6f}\n'.format(se))
      oc.write('\nDisplacement (A), Harmonic potential (cm-1)\n')
      for di, se in zip(data['x'], data['potential']):
          oc.write('{:.6f}, {:.6f}\n'.format(di * 10E10, se))
      oc.write('\nDisplacement (A), Harmonic Wavefunction for n=0, n=1, ...\n')
      for di, row in zip(data['x'], data['wf']):
          oc.write('{:.8f}, '.format(di * 10E10))
          for state_wf in row:
              oc.write('{:.8f}, '.format(state_wf))
          oc.write('\n')
      output = {
          'content': oc.getvalue(),
          'filename': 'waveplot_harmonic_data.dat'
      }
      return output
  \<close>
\<close>

definition download_data :: "int \<Rightarrow> dataset \<Rightarrow> error + download callback_result" where
  "download_data nc d =
     (if dict_len d = 0 then Inr NoUpdate
      else
        let header = ''Vibrational wavefunction data calculated using waveplot.com'' @ nl @
                     ''A tool by Jon Kragskow'' @ nl
        in
        try_bind (getitem ''states'' (data_states d)) (\<lambda>states.
          let out_states = nl @ ''State energies (cm-1)'' @ nl @
                concat (map (\<lambda>se. format_f 6 se @ nl) states)
          in
        try_bind (getitem ''x'' (data_x d)) (\<lambda>x.
        try_bind (getitem ''potential'' (data_potential d)) (\<lambda>potential.
          let out_potential = nl @ ''Displacement (A), Harmonic potential (cm-1)'' @ nl @
                concat (map (\<lambda>(a, b). format_f 6 a @ '', '' @ format_f 6 b @ nl)
                          (potential_table x potential))
          in
        try_bind (getitem ''wf'' (data_wf d)) (\<lambda>wf.
          let out_wf = nl @ ''Displacement (A), Harmonic Wavefunction for n=0, n=1, ...'' @ nl @
                concat (map (\<lambda>(a, row). format_f 8 a @ '', '' @
                                concat (map (\<lambda>state_wf. format_f 8 state_wf @ '', '') row) @ nl)
                          (wavefunction_table x wf))
          in
          Inr (Update \<lparr>content = header @ out_states @ out_potential @ out_wf,
                       filename = ''waveplot_harmonic_data.dat''\<rparr>))))))"

section \<open>Basic facts\<close>

lemma try_bind_Inr [simp]: "try_bind (Inr v) f = f v"
  by (simp add: try_bind_def)

lemma try_bind_Inl [simp]: "try_bind (Inl e) f = Inl e"
  by (simp add: try_bind_def)

lemma HBAR_pos: "0 < HBAR"
  by (simp add: HBAR_def Planck_def)

lemma LIGHT_pos: "0 < LIGHT"
  by (simp add: LIGHT_def speed_of_light_def)


lemma length_linspace: "length (linspace a b 100) = 100"
  by (simp add: linspace_def del: upt_rec_numeral)

lemma nth_linspace: "i < 100 \<Longrightarrow> linspace a b 100 ! i = a + real i * ((b - a) / 99)"
  by (simp add: linspace_def del: upt_rec_numeral)

lemma map_try_Inr:
  "(\<And>a. a \<in> set xs \<Longrightarrow> f a = Inr (g a)) \<Longrightarrow> map_try f xs = Inr (map g xs)"
  by (induction xs) simp_all

lemma length_hermite: "length (hermite n x) = length x"
  by (induction n x rule: hermite.induct) (simp_all add: arr_scale_def arr_mul_def arr_sub_def)

section \<open>Hermite polynomials: the recursion\<close>

text \<open>
  Claim C5. For every array \<open>x\<close>, elementwise: \<open>hermite 0 x\<close> is 1, \<open>hermite 1 x\<close> is
  \<open>2x\<close>, \<open>hermite 2 x\<close> is \<open>4x\<^sup>2 - 2\<close>, and for every order \<open>n \<ge> 2\<close> the value is
  \<open>2x \<cdot> hermite (n - 1) x - 2 (n - 1) \<cdot> hermite (n - 2) x\<close>.
\<close>

theorem hermite_recursion:
  "hermite 0 x = map (\<lambda>v. 1) x \<and>
   hermite 1 x = map (\<lambda>v. 2 * v) x \<and>
   hermite 2 x = map (\<lambda>v. 4 * v ^ 2 - 2) x \<and>
   (2 \<le> n \<longrightarrow>
      hermite n x =
        map (\<lambda>i. 2 * (x ! i) * (hermite (n - 1) x ! i) -
                  2 * (real n - 1) * (hermite (n - 2) x ! i))
          [0..<length x])"
proof (intro conjI impI)
  show "hermite 0 x = map (\<lambda>v. 1) x" by simp
  show "hermite 1 x = map (\<lambda>v. 2 * v) x" by (simp add: arr_scale_def)
  show "hermite 2 x = map (\<lambda>v. 4 * v ^ 2 - 2) x"
    by (rule nth_equalityI)
       (simp_all add: numeral_2_eq_2 arr_scale_def arr_mul_def arr_sub_def
          power2_eq_square algebra_simps)
next
  assume "2 \<le> n"
  then obtain k where n: "n = Suc (Suc k)"
    by (metis add_2_eq_Suc le_Suc_ex)
  show "hermite n x =
        map (\<lambda>i. 2 * (x ! i) * (hermite (n - 1) x ! i) -
                  2 * (real n - 1) * (hermite (n - 2) x ! i))
          [0..<length x]"
    unfolding n
    by (rule nth_equalityI)
       (simp_all add: arr_scale_def arr_mul_def arr_sub_def length_hermite)
qed

theorem hermite_recursion_witness:
  "(2::nat) \<le> 3 \<and> hermite 3 [1, 2] = [- 4, 40]"
  using hermite_recursion [of "[1, 2]" 3]
  by (simp add: numeral_3_eq_3 numeral_2_eq_2 arr_scale_def arr_mul_def arr_sub_def)

section \<open>Reduced mass and force constant: the round trip\<close>






section \<open>The unavailability guard of calc_data\<close>

text \<open>
  Claim C10. For the empty parameter record (the initial value \<^verbatim>\<open>{}\<close> of the variable
  store) \<^verbatim>\<open>None in vars.values()\<close> is false, so \<open>calc_data\<close> does not return
  \<^verbatim>\<open>no_update\<close>: it goes on to \<^verbatim>\<open>vars['fc']\<close>, which raises \<^verbatim>\<open>KeyError\<close>, whatever
  \<open>max_n\<close> is.
\<close>

theorem calc_data_empty_vars:
  "None \<notin> ran (Map.empty :: vars) \<and>
   calc_data Map.empty max_n = Inl (KeyError ''fc'') \<and>
   calc_data Map.empty max_n \<noteq> Inr NoUpdate"
  by (simp add: calc_data_def getnum_def getitem_def)

theorem calc_data_empty_vars_witness:
  "calc_data Map.empty (Some 5) = Inl (KeyError ''fc'') \<and>
   calc_data Map.empty None = Inl (KeyError ''fc'')"
  using calc_data_empty_vars [of "Some 5"] calc_data_empty_vars [of None] by simp

section \<open>The export without a dataset\<close>

text \<open>
  Claim C8. For every click count, \<open>download_data\<close> on the empty dataset returns
  \<^verbatim>\<open>no_update\<close>, so no file content; and whenever it returns an output payload, the
  dataset was not empty and the file name is \<^verbatim>\<open>waveplot_harmonic_data.dat\<close>.
\<close>

theorem download_data_no_dataset:
  "download_data nc empty_dataset = Inr NoUpdate \<and>
   (download_data nc d = Inr (Update out) \<longrightarrow>
      d \<noteq> empty_dataset \<and> dict_len d \<noteq> 0 \<and> filename out = ''waveplot_harmonic_data.dat'')"
  by (auto simp add: download_data_def empty_dataset_def dict_len_def getitem_def Let_def
      try_bind_def split: if_splits option.splits)

theorem download_data_no_dataset_witness:
  "download_data 1 \<lparr>data_x = Some [], data_wf = Some [],
                    data_states = Some [], data_potential = Some []\<rparr> =
     Inr (Update \<lparr>content =
       ''Vibrational wavefunction data calculated using waveplot.com\<newline>A tool by Jon Kragskow\<newline>\<newline>State energies (cm-1)\<newline>\<newline>Displacement (A), Harmonic potential (cm-1)\<newline>\<newline>Displacement (A), Harmonic Wavefunction for n=0, n=1, ...\<newline>'',
       filename = ''waveplot_harmonic_data.dat''\<rparr>) \<and>
   \<lparr>data_x = Some [], data_wf = Some [], data_states = Some [], data_potential = Some []\<rparr>
     \<noteq> empty_dataset \<and>
   download_data 1 empty_dataset = Inr NoUpdate"
proof -
  have e: "download_data 1 \<lparr>data_x = Some [], data_wf = Some [],
                    data_states = Some [], data_potential = Some []\<rparr> =
     Inr (Update \<lparr>content =
       ''Vibrational wavefunction data calculated using waveplot.com\<newline>A tool by Jon Kragskow\<newline>\<newline>State energies (cm-1)\<newline>\<newline>Displacement (A), Harmonic potential (cm-1)\<newline>\<newline>Displacement (A), Harmonic Wavefunction for n=0, n=1, ...\<newline>'',
       filename = ''waveplot_harmonic_data.dat''\<rparr>)"
    by (simp add: download_data_def dict_len_def getitem_def Let_def nl_def potential_table_def
        wavefunction_table_def)
  show ?thesis
    using download_data_no_dataset [where nc = 1 and d = "\<lparr>data_x = Some [], data_wf = Some [],
                    data_states = Some [], data_potential = Some []\<rparr>" and out = "\<lparr>content =
       ''Vibrational wavefunction data calculated using waveplot.com\<newline>A tool by Jon Kragskow\<newline>\<newline>State energies (cm-1)\<newline>\<newline>Displacement (A), Harmonic potential (cm-1)\<newline>\<newline>Displacement (A), Harmonic Wavefunction for n=0, n=1, ...\<newline>'',
       filename = ''waveplot_harmonic_data.dat''\<rparr>"]
    unfolding e by simp
qed

section \<open>The parameter resolver on an invalid selection\<close>

text \<open>Python's \<^verbatim>\<open>round\<close> moves a value by at most half a unit of the last kept decimal.\<close>

lemma round_half_even_near: "\<bar>of_int (round_half_even u) - u\<bar> \<le> 1 / 2"
  unfolding round_half_even_def Let_def
  by (auto simp add: abs_le_iff)

lemma py_round_near: "\<bar>py_round v n - v\<bar> \<le> 1 / (2 * 10 ^ n)"
proof -
  define a where "a = \<bar>of_int (round_half_even (v * 10 ^ n)) - v * 10 ^ n\<bar>"
  have "a \<le> 1 / 2"
    unfolding a_def by (rule round_half_even_near)
  then have "a / 10 ^ n \<le> (1 / 2) / 10 ^ n"
    by (rule divide_right_mono) simp
  moreover have "py_round v n - v = (of_int (round_half_even (v * 10 ^ n)) - v * 10 ^ n) / 10 ^ n"
    by (simp add: py_round_def diff_divide_distrib)
  then have "\<bar>py_round v n - v\<bar> = a / 10 ^ n"
    by (simp add: a_def abs_divide)
  ultimately show ?thesis by simp
qed

text \<open>
  Claim C1. For every four values and every four flags: if the number of true flags is
  not 2, or the flags of the linear and of the angular wavenumber are both true, then
  \<open>update_inputs\<close> returns the dictionary \<^verbatim>\<open>{'fc': None, 'mu': None}\<close>, whatever the
  values are, the four displayed values are the four inputs rounded (to 2, 2, 2 and 4
  decimals, so at most 0.005 and 0.00005 away from the inputs), and each \<^verbatim>\<open>disabled\<close>
  flag is the negation of its fixed-flag.
\<close>

theorem update_inputs_invalid:
  assumes "py_sum [ang_wn_fix, lin_wn_fix, fc_fix, mu_fix] \<noteq> 2 \<or> (ang_wn_fix \<and> lin_wn_fix)"
  shows "update_inputs lin_wn ang_wn fc mu lin_wn_fix ang_wn_fix fc_fix mu_fix =
           Inr \<lparr>var_store = [''fc'' \<mapsto> None, ''mu'' \<mapsto> None],
                lin_wn_value = py_round lin_wn 2, ang_wn_value = py_round ang_wn 2,
                fc_value = py_round fc 2, rm_value = py_round mu 4,
                lin_wn_disabled = (\<not> lin_wn_fix), ang_wn_disabled = (\<not> ang_wn_fix),
                fc_disabled = (\<not> fc_fix), rm_disabled = (\<not> mu_fix)\<rparr> \<and>
         \<bar>py_round lin_wn 2 - lin_wn\<bar> \<le> 1 / 200 \<and>
         \<bar>py_round ang_wn 2 - ang_wn\<bar> \<le> 1 / 200 \<and>
         \<bar>py_round fc 2 - fc\<bar> \<le> 1 / 200 \<and>
         \<bar>py_round mu 4 - mu\<bar> \<le> 1 / 20000"
proof -
  have "update_inputs lin_wn ang_wn fc mu lin_wn_fix ang_wn_fix fc_fix mu_fix =
           Inr \<lparr>var_store = [''fc'' \<mapsto> None, ''mu'' \<mapsto> None],
                lin_wn_value = py_round lin_wn 2, ang_wn_value = py_round ang_wn 2,
                fc_value = py_round fc 2, rm_value = py_round mu 4,
                lin_wn_disabled = (\<not> lin_wn_fix), ang_wn_disabled = (\<not> ang_wn_fix),
                fc_disabled = (\<not> fc_fix), rm_disabled = (\<not> mu_fix)\<rparr>"
    using assms unfolding update_inputs_def Let_def by (simp only: if_True) simp
  then show ?thesis
    using py_round_near [of lin_wn 2] py_round_near [of ang_wn 2]
      py_round_near [of fc 2] py_round_near [of mu 4]
    by simp
qed

theorem update_inputs_invalid_witness:
  "py_sum [False, True, True, True] = 3 \<and>
   update_inputs 2888.004 18145.84 480 0.97685 True False True True =
     Inr \<lparr>var_store = [''fc'' \<mapsto> None, ''mu'' \<mapsto> None],
          lin_wn_value = 2888, ang_wn_value = 18145.84,
          fc_value = 480, rm_value = 0.9768,
          lin_wn_disabled = False, ang_wn_disabled = True,
          fc_disabled = False, rm_disabled = False\<rparr>"
proof -
  have r1: "py_round 2888.004 2 = 2888"
    by (simp add: py_round_def round_half_even_def Let_def)
  have r2: "py_round 18145.84 2 = 18145.84"
    by (simp add: py_round_def round_half_even_def Let_def)
  have r3: "py_round 480 2 = 480"
    by (simp add: py_round_def round_half_even_def Let_def)
  have r4: "py_round 0.97685 4 = 0.9768"
    by (simp add: py_round_def round_half_even_def Let_def)
  have s: "py_sum [False, True, True, True] = 3"
    by (simp add: py_sum_def)
  have h: "py_sum [False, True, True, True] \<noteq> 2 \<or> (False \<and> True)"
    by (simp add: py_sum_def)
  show ?thesis
    using update_inputs_invalid [where lin_wn = "2888.004" and ang_wn = "18145.84" and fc = 480
      and mu = "0.97685" and lin_wn_fix = True and ang_wn_fix = False and fc_fix = True
      and mu_fix = True, OF h]
    unfolding r1 r2 r3 r4 s
    by simp
qed

section \<open>The range of the energy axis\<close>

lemma py_index_last: "xs \<noteq> [] \<Longrightarrow> py_index xs (- 1) = Inr (xs ! (length xs - 1))"
  by (cases xs) (simp_all add: py_index_def Let_def nat_diff_distrib)

lemma py_index_prev: "2 \<le> length xs \<Longrightarrow> py_index xs (- 2) = Inr (xs ! (length xs - 2))"
proof -
  assume l: "2 \<le> length xs"
  then have "nat (int (length xs) - 2) = length xs - 2" by simp
  then show ?thesis using l by (simp add: py_index_def Let_def)
qed

lemma py_index_first: "xs \<noteq> [] \<Longrightarrow> py_index xs 0 = Inr (xs ! 0)"
  by (simp add: py_index_def Let_def)

lemma py_index_prev_single: "py_index [e] (- 2) = Inl IndexError"
  by (simp add: py_index_def Let_def)

lemma py_min_returns: "x \<noteq> [] \<Longrightarrow> \<exists>v. py_min x = Inr v"
  by (cases x) (simp_all add: py_min_def)

lemma py_max_returns: "x \<noteq> [] \<Longrightarrow> \<exists>v. py_max x = Inr v"
  by (cases x) (simp_all add: py_max_def)

lemma update_plot_range:
  assumes "update_plot d = Inr fig" "data_states d = Some es"
  shows "py_index es (- 1) = Inr (es ! (length es - 1)) \<and>
         py_index es (- 2) = Inr (es ! (length es - 2)) \<and> 2 \<le> length es \<and>
         yaxis_range fig =
           [es ! 0 - (es ! (length es - 1) - es ! (length es - 2)) / 2,
            2 * es ! (length es - 1) - es ! (length es - 2)]"
proof -
  have two: "2 \<le> length es"
  proof (rule ccontr)
    assume "\<not> 2 \<le> length es"
    then have "py_index es (- 2) = Inl IndexError"
      by (auto simp add: py_index_def Let_def)
    then show False
      using assms
      by (auto simp add: update_plot_def getitem_def Let_def try_bind_def
          split: option.splits sum.splits)
  qed
  then have ne: "es \<noteq> []" by auto
  show ?thesis
    using assms two
    by (auto simp add: update_plot_def getitem_def Let_def try_bind_def
        py_index_last [OF ne] py_index_prev [OF two] py_index_first [OF ne]
        split: option.splits sum.splits)
qed

lemma update_plot_returns:
  assumes "data_x d = Some x" "x \<noteq> []" "data_potential d = Some p"
    "data_states d = Some es" "2 \<le> length es" "data_wf d = Some w"
  shows "\<exists>fig. update_plot d = Inr fig"
proof -
  from assms(5) have ne: "es \<noteq> []" by auto
  obtain lo where lo: "py_min x = Inr lo" using py_min_returns [OF assms(2)] by blast
  obtain hi where hi: "py_max x = Inr hi" using py_max_returns [OF assms(2)] by blast
  show ?thesis
    by (simp add: update_plot_def getitem_def Let_def assms(1,3,4,6) lo hi
        py_index_last [OF ne] py_index_prev [OF assms(5)] py_index_first [OF ne])
qed

lemma update_plot_single:
  assumes "data_x d = Some x" "x \<noteq> []" "data_potential d = Some p"
    "data_states d = Some [e]" "data_wf d = Some w"
  shows "update_plot d = Inl IndexError"
proof -
  obtain lo where lo: "py_min x = Inr lo" using py_min_returns [OF assms(2)] by blast
  obtain hi where hi: "py_max x = Inr hi" using py_max_returns [OF assms(2)] by blast
  have l: "py_index [e] (- 1) = Inr e" by (simp add: py_index_def Let_def)
  show ?thesis
    by (simp add: update_plot_def getitem_def Let_def assms(1,3,4,5) lo hi l
        py_index_prev_single)
qed

text \<open>
  Claim C7. For every dataset whose list of state energies \<open>es\<close> has at least two
  entries: whenever \<open>update_plot\<close> returns a figure, the range of its y axis is
  \<open>[E\<^sub>0 - (E\<^sub>N - E\<^sub>N\<^sub>-\<^sub>1) / 2, 2 E\<^sub>N - E\<^sub>N\<^sub>-\<^sub>1]\<close>, with \<open>E\<^sub>0\<close> the first and \<open>E\<^sub>N\<close>, \<open>E\<^sub>N\<^sub>-\<^sub>1\<close> the last
  two entries; and it returns a figure when the dataset has its four keys and the list of
  displacements is not empty (\<^verbatim>\<open>min\<close> and \<^verbatim>\<open>max\<close> of \<^verbatim>\<open>data['x']\<close> raise on an empty list).
\<close>

theorem update_plot_yaxis_range:
  assumes "data_states d = Some es" "2 \<le> length es"
  shows "(update_plot d = Inr fig \<longrightarrow>
            yaxis_range fig =
              [es ! 0 - (es ! (length es - 1) - es ! (length es - 2)) / 2,
               2 * es ! (length es - 1) - es ! (length es - 2)]) \<and>
         (data_x d = Some x \<and> x \<noteq> [] \<and> data_potential d = Some p \<and> data_wf d = Some w \<longrightarrow>
            (\<exists>fig'. update_plot d = Inr fig' \<and>
               yaxis_range fig' =
                 [es ! 0 - (es ! (length es - 1) - es ! (length es - 2)) / 2,
                  2 * es ! (length es - 1) - es ! (length es - 2)]))"
proof (intro conjI impI)
  assume "update_plot d = Inr fig"
  then show "yaxis_range fig =
              [es ! 0 - (es ! (length es - 1) - es ! (length es - 2)) / 2,
               2 * es ! (length es - 1) - es ! (length es - 2)]"
    using update_plot_range [OF _ assms(1)] by blast
next
  assume a: "data_x d = Some x \<and> x \<noteq> [] \<and> data_potential d = Some p \<and> data_wf d = Some w"
  then obtain fig' where f: "update_plot d = Inr fig'"
    using update_plot_returns [of d x p es w] assms by blast
  then show "\<exists>fig'. update_plot d = Inr fig' \<and>
               yaxis_range fig' =
                 [es ! 0 - (es ! (length es - 1) - es ! (length es - 2)) / 2,
                  2 * es ! (length es - 1) - es ! (length es - 2)]"
    using update_plot_range [OF f assms(1)] by blast
qed

theorem update_plot_yaxis_range_witness:
  "\<exists>fig'. update_plot \<lparr>data_x = Some [1, 2], data_wf = Some [[1 / 2, 1 / 4], [1, 1]],
                        data_states = Some [100, 200, 320], data_potential = Some [3, 4]\<rparr> =
             Inr fig' \<and>
           yaxis_range fig' = [40, 440]"
  using update_plot_yaxis_range [where d = "\<lparr>data_x = Some [1, 2],
      data_wf = Some [[1 / 2, 1 / 4], [1, 1]], data_states = Some [100, 200, 320],
      data_potential = Some [3, 4]\<rparr>" and es = "[100, 200, 320]" and x = "[1, 2]"
      and p = "[3, 4]" and w = "[[1 / 2, 1 / 4], [1, 1]]"]
  by simp

section \<open>The oscillator on valid parameters\<close>

text \<open>
  With a positive force constant and a positive mass every square root and quotient of
  \<open>calc_harmonic_energies\<close> is defined, and with a non-negative angular wavenumber so
  is the one of \<open>harmonic_wf\<close>; \<open>calc_data\<close> then returns the dataset built from them.
\<close>

lemma calc_harmonic_energies_value:
  assumes "0 < k" "0 < m" "0 \<le> N"
  defines "w \<equiv> sqrt (k / m) / (2 * pi)"
  defines "X \<equiv> sqrt ((of_int N + 0.5) * 2 * HBAR * w / k)"
  shows "calc_harmonic_energies k m N =
     Inr (map (\<lambda>n. HBAR * w * (of_int n + 0.5)) [0..N],
          map (\<lambda>d. 0.5 * k * d ^ 2) (linspace (- X * 1.2) (X * 1.2) 100),
          linspace (- X * 1.2) (X * 1.2) 100,
          sqrt (HBAR * w / k))"
proof -
  have w: "0 < w" using assms(1,2) by (simp add: w_def)
  have s1: "py_div k m = Inr (k / m)" using assms by (simp add: py_div_def)
  have s2: "np_sqrt (k / m) = Inr (sqrt (k / m))" using assms by (simp add: np_sqrt_def not_less)
  have s3: "np_div ((of_int N + 0.5) * 2 * HBAR * w) k = Inr ((of_int N + 0.5) * 2 * HBAR * w / k)"
    using assms by (simp add: np_div_def)
  have s4: "np_sqrt ((of_int N + 0.5) * 2 * HBAR * w / k) = Inr X"
    using assms w HBAR_pos by (simp add: np_sqrt_def not_less X_def)
  have s5: "np_div (HBAR * w) k = Inr (HBAR * w / k)" using assms by (simp add: np_div_def)
  have s6: "np_sqrt (HBAR * w / k) = Inr (sqrt (HBAR * w / k))"
    using assms w HBAR_pos by (simp add: np_sqrt_def not_less)
  show ?thesis
    unfolding calc_harmonic_energies_def
    by (simp only: s1 s2 try_bind_Inr Let_def w_def [symmetric] s3 s4 s5 s6)
qed

lemma max_x_pos:
  assumes "0 < k" "0 < m" "0 \<le> N"
  shows "0 < sqrt ((of_int N + 0.5) * 2 * HBAR * (sqrt (k / m) / (2 * pi)) / k)"
  using assms HBAR_pos by simp

lemma harmonic_wf_returns:
  assumes "0 \<le> m * om"
  shows "\<exists>r. harmonic_wf n x m om = Inr r \<and> length r = length x"
proof -
  have "np_sqrt (m * om / HBAR) = Inr (sqrt (m * om / HBAR))"
    using assms HBAR_pos by (simp add: np_sqrt_def not_less)
  then show ?thesis
    by (simp add: harmonic_wf_def Let_def length_hermite arr_scale_def)
qed

lemma guard_vars4:
  "None \<notin> ran [''fc'' \<mapsto> Some k, ''mu'' \<mapsto> Some m, ''ang_wn'' \<mapsto> Some a,
                  ''lin_wn'' \<mapsto> Some l]"
  by (simp add: ran_map_upd)

lemma calc_data_value:
  assumes "0 < k" "0 < m" "0 \<le> a" "0 \<le> N"
  assumes ce: "calc_harmonic_energies k m N = Inr (E, V, disp, z)"
  shows "\<exists>wfs. calc_data [''fc'' \<mapsto> Some k, ''mu'' \<mapsto> Some m, ''ang_wn'' \<mapsto> Some a,
                            ''lin_wn'' \<mapsto> Some l] (Some N) =
           Inr (Update \<lparr>data_x = Some (map (\<lambda>d. d * (10 * 10 ^ 10)) disp),
                        data_wf = Some wfs,
                        data_states = Some (map (\<lambda>e. e / (1.98630 / 10 ^ 23)) E),
                        data_potential = Some (map (\<lambda>e. e / (1.98630 / 10 ^ 23)) V)\<rparr>) \<and>
           length wfs = nat (N + 1)"
proof -
  let ?vs = "[''fc'' \<mapsto> Some k, ''mu'' \<mapsto> Some m, ''ang_wn'' \<mapsto> Some a, ''lin_wn'' \<mapsto> Some l]"
  define g where "g n = projr (harmonic_wf n disp m (a * LIGHT))" for n
  have pos: "0 \<le> m * (a * LIGHT)" using assms LIGHT_pos by simp
  have g: "harmonic_wf n disp m (a * LIGHT) = Inr (g n)" for n
    using harmonic_wf_returns [OF pos, of n disp] by (auto simp add: g_def)
  have guard: "None \<notin> ran ?vs" by (rule guard_vars4)
  have fc: "getnum ?vs ''fc'' = Inr k" by (simp add: getnum_def getitem_def)
  have mu: "getnum ?vs ''mu'' = Inr m" by (simp add: getnum_def getitem_def)
  have ang: "getnum ?vs ''ang_wn'' = Inr a" by (simp add: getnum_def getitem_def)
  have wfs: "map_try (\<lambda>n. Inr (g n)) xs = Inr (map g xs)" for xs
    by (rule map_try_Inr) simp
  have "calc_data ?vs (Some N) = Inr (Update \<lparr>data_x = Some (map (\<lambda>d. d * (10 * 10 ^ 10)) disp),
                        data_wf = Some (map g [0..<nat (N + 1)]),
                        data_states = Some (map (\<lambda>e. e / (1.98630 / 10 ^ 23)) E),
                        data_potential = Some (map (\<lambda>e. e / (1.98630 / 10 ^ 23)) V)\<rparr>)"
    unfolding calc_data_def
    by (simp only: guard if_False option.case Let_def fc mu ang try_bind_Inr ce prod.case g wfs)
  then show ?thesis by (intro exI [of _ "map g [0..<nat (N + 1)]"]) simp
qed

section \<open>The plot of a single state\<close>

text \<open>
  Claim C9. When the dataset holds exactly one state energy, \<open>update_plot\<close> returns no
  figure: with the four keys present and a non-empty list of displacements it reads
  \<^verbatim>\<open>data['states'][-2]\<close>, which raises \<^verbatim>\<open>IndexError\<close>. The case is reachable: for a
  positive force constant, a positive mass and a non-negative angular wavenumber,
  \<open>calc_data\<close> with \<open>max_n = 0\<close> (the minimum the input field allows) returns a dataset
  with one state energy, on which \<open>update_plot\<close> raises \<^verbatim>\<open>IndexError\<close>.
\<close>

theorem update_plot_single_state:
  "(data_states d = Some [e] \<longrightarrow> update_plot d \<noteq> Inr fig) \<and>
   (data_states d = Some [e] \<and> data_x d = Some x \<and> x \<noteq> [] \<and>
    data_potential d = Some p \<and> data_wf d = Some w \<longrightarrow>
      update_plot d = Inl IndexError) \<and>
   (0 < k \<and> 0 < m \<and> 0 \<le> a \<longrightarrow>
      (\<exists>d'. calc_data [''fc'' \<mapsto> Some k, ''mu'' \<mapsto> Some m, ''ang_wn'' \<mapsto> Some a,
                        ''lin_wn'' \<mapsto> Some l] (Some 0) = Inr (Update d') \<and>
            (\<exists>e'. data_states d' = Some [e']) \<and>
            update_plot d' = Inl IndexError))"
proof (intro conjI impI)
  assume "data_states d = Some [e]"
  then show "update_plot d \<noteq> Inr fig"
    using update_plot_range [of d fig "[e]"] by auto
next
  assume "data_states d = Some [e] \<and> data_x d = Some x \<and> x \<noteq> [] \<and>
    data_potential d = Some p \<and> data_wf d = Some w"
  then show "update_plot d = Inl IndexError"
    using update_plot_single [of d x p e w] by blast
next
  assume pos: "0 < k \<and> 0 < m \<and> 0 \<le> a"
  define om where "om = sqrt (k / m) / (2 * pi)"
  define X where "X = sqrt ((of_int 0 + 0.5) * 2 * HBAR * om / k)"
  define disp where "disp = linspace (- X * 1.2) (X * 1.2) 100"
  have ce: "calc_harmonic_energies k m 0 =
     Inr (map (\<lambda>n. HBAR * om * (of_int n + 0.5)) [0..0],
          map (\<lambda>d. 0.5 * k * d ^ 2) disp, disp, sqrt (HBAR * om / k))"
    unfolding om_def X_def disp_def
    using calc_harmonic_energies_value [of k m 0] pos by simp
  obtain wfs where cd: "calc_data [''fc'' \<mapsto> Some k, ''mu'' \<mapsto> Some m, ''ang_wn'' \<mapsto> Some a,
                        ''lin_wn'' \<mapsto> Some l] (Some 0) =
      Inr (Update \<lparr>data_x = Some (map (\<lambda>d. d * (10 * 10 ^ 10)) disp),
                   data_wf = Some wfs,
                   data_states = Some (map (\<lambda>e. e / (1.98630 / 10 ^ 23))
                                    (map (\<lambda>n. HBAR * om * (of_int n + 0.5)) [0..0])),
                   data_potential = Some (map (\<lambda>e. e / (1.98630 / 10 ^ 23))
                                    (map (\<lambda>d. 0.5 * k * d ^ 2) disp))\<rparr>)"
    using calc_data_value [OF _ _ _ _ ce, of a l] pos by auto
  define d' where "d' = \<lparr>data_x = Some (map (\<lambda>d. d * (10 * 10 ^ 10)) disp),
                   data_wf = Some wfs,
                   data_states = Some (map (\<lambda>e. e / (1.98630 / 10 ^ 23))
                                    (map (\<lambda>n. HBAR * om * (of_int n + 0.5)) [0..0])),
                   data_potential = Some (map (\<lambda>e. e / (1.98630 / 10 ^ 23))
                                    (map (\<lambda>d. 0.5 * k * d ^ 2) disp))\<rparr>"
  have z: "[0..0::int] = [0]" by (simp add: upto.simps)
  have st: "data_states d' = Some [HBAR * om * (of_int 0 + 0.5) / (1.98630 / 10 ^ 23)]"
    unfolding d'_def z by simp
  have ne: "map (\<lambda>d. d * (10 * 10 ^ 10)) disp \<noteq> []"
    using length_linspace [of "- X * 1.2" "X * 1.2"] unfolding disp_def by auto
  have "update_plot d' = Inl IndexError"
    by (rule update_plot_single [OF _ ne _ st]) (simp_all add: d'_def)
  then show "\<exists>d'. calc_data [''fc'' \<mapsto> Some k, ''mu'' \<mapsto> Some m, ''ang_wn'' \<mapsto> Some a,
                        ''lin_wn'' \<mapsto> Some l] (Some 0) = Inr (Update d') \<and>
            (\<exists>e'. data_states d' = Some [e']) \<and>
            update_plot d' = Inl IndexError"
    using cd st unfolding d'_def [symmetric] by blast
qed

theorem update_plot_single_state_witness:
  "update_plot \<lparr>data_x = Some [1, 2], data_wf = Some [[1 / 2, 1 / 4]],
                data_states = Some [100], data_potential = Some [3, 4]\<rparr> = Inl IndexError \<and>
   (\<exists>d'. calc_data [''fc'' \<mapsto> Some 480, ''mu'' \<mapsto> Some 1, ''ang_wn'' \<mapsto> Some 2,
                     ''lin_wn'' \<mapsto> Some 3] (Some 0) = Inr (Update d') \<and>
         (\<exists>e'. data_states d' = Some [e']) \<and>
         update_plot d' = Inl IndexError)"
  using update_plot_single_state [where d = "\<lparr>data_x = Some [1, 2],
      data_wf = Some [[1 / 2, 1 / 4]], data_states = Some [100],
      data_potential = Some [3, 4]\<rparr>" and e = 100 and x = "[1, 2]" and p = "[3, 4]"
      and w = "[[1 / 2, 1 / 4]]" and k = 480 and m = 1 and a = 2 and l = 3]
  by simp

section \<open>The ladder of state energies\<close>





end
